theory Spec2Isabelle
  imports Complex_Main
begin

section \<open>JavaScript values used by the football predictions application\<close>

text \<open>
  The application has two source files of substance: the proxy route
  (\<^verbatim>\<open>GET\<close>, the handler of \<^verbatim>\<open>/api/predictions\<close>) and the client component
  \<^verbatim>\<open>PredictionList\<close> with its helpers \<^verbatim>\<open>calculateTimeRemaining\<close>,
  \<^verbatim>\<open>determineOutcome\<close>, \<^verbatim>\<open>formatPercentage\<close> and \<^verbatim>\<open>getTeamLogo\<close>.

  Numbers. A JavaScript number is an IEEE-754 double. Every finite double is a rational
  number, and the operations the helpers apply to them are exact on the value:
  comparison, \<^verbatim>\<open>Math.max\<close>, multiplication by \<^verbatim>\<open>1\<close>, and \<^verbatim>\<open>toFixed\<close>, which rounds
  the mathematical value of its receiver. A finite number is therefore modelled by its
  value, of type \<^typ>\<open>rat\<close>. Time values of \<^verbatim>\<open>Date\<close> are integers of milliseconds, of
  type \<^typ>\<open>int\<close>; an invalid date, whose \<^verbatim>\<open>getTime()\<close> is \<^verbatim>\<open>NaN\<close>, is \<^term>\<open>None\<close>.

  Strings. A string is a \<^typ>\<open>string\<close>; a character stands for the code unit of the
  same number (Latin-1, the first 256 code points of Unicode).
\<close>

subsection \<open>Decimal rendering of integers\<close>

definition digit_char :: "nat \<Rightarrow> char" where
  "digit_char d = ''0123456789'' ! d"

text \<open>\<^verbatim>\<open>String(n)\<close> for a non-negative integer \<open>n\<close> below \<open>10^21\<close>: its decimal digits.\<close>

fun string_of_nat :: "nat \<Rightarrow> string" where
  "string_of_nat n =
     (if n < 10 then [digit_char n]
      else string_of_nat (n div 10) @ [digit_char (n mod 10)])"

declare string_of_nat.simps [simp del]

definition string_of_int :: "int \<Rightarrow> string" where
  "string_of_int i =
     (if i < 0 then ''-'' @ string_of_nat (nat (- i)) else string_of_nat (nat i))"

text \<open>
  \<^verbatim>\<open>x.toFixed(0)\<close> for a finite \<open>x\<close> of magnitude below \<open>10^21\<close> (beyond that
  JavaScript switches to exponent notation, which no value of this application reaches).
  ECMAScript: a negative \<open>x\<close> is negated and the result prefixed with a minus sign; then
  \<open>n\<close> is the integer nearest to \<open>x\<close>, the larger one of two equally near.
\<close>

definition toFixed0 :: "rat \<Rightarrow> string" where
  "toFixed0 x =
     (if x < 0 then ''-'' @ string_of_nat (nat \<lfloor>- x + 1 / 2\<rfloor>)
      else string_of_nat (nat \<lfloor>x + 1 / 2\<rfloor>))"

subsection \<open>Characters: white space and lower case\<close>

text \<open>
  The class \<^verbatim>\<open>\s\<close> of a JavaScript regular expression, among the code units below
  256: tab, line feed, vertical tab, form feed, carriage return, space, no-break space.
\<close>

definition is_space :: "char \<Rightarrow> bool" where
  "is_space c = (of_char c \<in> {9, 10, 11, 12, 13, 32, 160 :: nat})"

text \<open>The upper-case letters below 256: A to Z, and U+00C0 to U+00DE without U+00D7.\<close>

definition is_upper :: "char \<Rightarrow> bool" where
  "is_upper c =
     (let n = of_char c :: nat
      in (65 \<le> n \<and> n \<le> 90) \<or> (192 \<le> n \<and> n \<le> 222 \<and> n \<noteq> 215))"

definition lower_char :: "char \<Rightarrow> char" where
  "lower_char c = (if is_upper c then char_of (of_char c + 32 :: nat) else c)"

text \<open>\<^verbatim>\<open>s.toLowerCase()\<close>\<close>

definition toLowerCase :: "string \<Rightarrow> string" where
  "toLowerCase s = map lower_char s"

text \<open>
  \<^verbatim>\<open>s.replace(/\s+/g, '-')\<close>: every maximal run of white space becomes one hyphen.
\<close>

function replace_ws :: "string \<Rightarrow> string" where
  "replace_ws [] = []"
| "replace_ws (c # cs) =
     (if is_space c then CHR ''-'' # replace_ws (dropWhile is_space cs)
      else c # replace_ws cs)"
  by pat_completeness auto
termination
  by (relation "measure length") (auto simp: length_dropWhile_le less_Suc_eq_le)

section \<open>The helpers of the prediction view\<close>

record Prediction =
  matchId :: string
  homeTeamName :: string
  awayTeamName :: string
  dateTime :: string
  homePrediction :: string
  awayPrediction :: string
  probHomeWin :: rat
  probDraw :: rat
  probAwayWin :: rat
  expectedHomeGoals :: rat
  expectedAwayGoals :: rat

text \<open>
  \<^verbatim>\<open>calculateTimeRemaining(matchTime)\<close>. The function reads the clock
  (\<^verbatim>\<open>new Date()\<close>, here \<open>now\<close>, in milliseconds) and parses its argument
  (\<^verbatim>\<open>new Date(matchTime).getTime()\<close>, here \<open>matchDate\<close>: the time value, or
  \<^term>\<open>None\<close> for a string that is no date). With \<^verbatim>\<open>NaN\<close> both comparisons are
  false and the last template prints \<^verbatim>\<open>NaNm\<close>. A difference of time values
  of a kickoff not before the clock is an integer below \<open>2^53\<close>, on which the double
  division followed by \<^verbatim>\<open>Math.floor\<close> is the integer quotient and \<^verbatim>\<open>%\<close> the
  remainder.
\<close>

definition calculateTimeRemaining :: "int \<Rightarrow> int option \<Rightarrow> string" where
  "calculateTimeRemaining now matchDate =
     (case matchDate of
        None \<Rightarrow> ''NaNm''
      | Some t \<Rightarrow>
          (let timeDiff = t - now in
           if timeDiff < 0 then ''Match ended''
           else
             (let hours = timeDiff div (1000 * 60 * 60);
                  minutes = (timeDiff mod (1000 * 60 * 60)) div (1000 * 60)
              in if hours > 0
                 then string_of_int hours @ ''h '' @ string_of_int minutes @ ''m''
                 else string_of_int minutes @ ''m'')))"

text \<open>
  \<^verbatim>\<open>Math.max(a, b, c)\<close> on finite numbers, which is what the numbers of a parsed
  JSON text are (JSON has no \<^verbatim>\<open>NaN\<close>).
\<close>

definition Math_max3 :: "rat \<Rightarrow> rat \<Rightarrow> rat \<Rightarrow> rat" where
  "Math_max3 a b c = max (max a b) c"

definition determineOutcome :: "'a Prediction_scheme \<Rightarrow> string" where
  "determineOutcome match =
     (let maxProb = Math_max3 (probHomeWin match) (probDraw match) (probAwayWin match)
      in if maxProb = probHomeWin match then homeTeamName match @ '' likely to win''
         else if maxProb = probAwayWin match then awayTeamName match @ '' likely to win''
         else ''Draw likely'')"

definition formatPercentage :: "rat \<Rightarrow> string" where
  "formatPercentage v = toFixed0 (v * 1) @ ''%''"

text \<open>
  The value the same card passes to its progress bar for the same field:
  \<^verbatim>\<open><Progress value={match.probHomeWin * 100} />\<close>. The product of two doubles is
  rounded to a double and the product here is exact; at the values used below both
  print as the same integer.
\<close>

definition progressValue :: "rat \<Rightarrow> rat" where
  "progressValue v = v * 100"

definition getTeamLogo :: "string \<Rightarrow> string" where
  "getTeamLogo teamName =
     (let formattedName = toLowerCase (replace_ws teamName)
      in ''https://img.icons8.com/color/96/'' @ formattedName @ ''.png'')"

text \<open>
  The transformation of the team name in the words of the specification: the name is
  put in lower case, and white space is replaced with hyphens.
\<close>

definition spec_formattedName :: "string \<Rightarrow> string" where
  "spec_formattedName teamName = replace_ws (toLowerCase teamName)"

section \<open>JSON values and the result of a fetch\<close>

text \<open>
  The value \<^verbatim>\<open>response.json()\<close> resolves to. The members of an object are kept in
  the order of the text; of two members with one key the later one counts.
\<close>

datatype json =
    JNull
  | JBool bool
  | JNum rat
  | JStr string
  | JArr "json list"
  | JObj "(string \<times> json) list"

text \<open>\<^verbatim>\<open>obj[key]\<close> on an object: \<^term>\<open>None\<close> is \<^verbatim>\<open>undefined\<close>.\<close>

definition get_member :: "(string \<times> json) list \<Rightarrow> string \<Rightarrow> json option" where
  "get_member kvs key = map_of (rev kvs) key"

text \<open>The truth value JavaScript gives a value in a condition.\<close>

fun truthy :: "json \<Rightarrow> bool" where
  "truthy JNull = False"
| "truthy (JBool b) = b"
| "truthy (JNum n) = (n \<noteq> 0)"
| "truthy (JStr s) = (s \<noteq> [])"
| "truthy (JArr xs) = True"
| "truthy (JObj kvs) = True"

text \<open>
  What \<^verbatim>\<open>await fetch(url)\<close> followed by \<^verbatim>\<open>await response.json()\<close> can give:
  the request is rejected (a network error), or there is a response with a status,
  whose body parses as JSON (\<^term>\<open>Some data\<close>) or does not (\<^term>\<open>None\<close>:
  \<^verbatim>\<open>response.json()\<close> rejects).
\<close>

datatype fetch_result =
    FetchRejected
  | FetchResponse nat "json option"

text \<open>\<^verbatim>\<open>response.ok\<close>: the status is in the range 200 to 299.\<close>

definition response_ok :: "nat \<Rightarrow> bool" where
  "response_ok st = (200 \<le> st \<and> st \<le> 299)"

section \<open>The proxy route: \<^verbatim>\<open>GET /api/predictions\<close>\<close>

record http_response =
  status :: nat
  body :: json

text \<open>
  The \<^verbatim>\<open>try\<close> block of \<^verbatim>\<open>GET\<close>, given the result of its request to the upstream
  service: \<^term>\<open>None\<close> when the block throws, \<^term>\<open>Some data\<close> when it reaches
  \<^verbatim>\<open>NextResponse.json(data)\<close>. The block throws when \<^verbatim>\<open>fetch\<close> rejects, when
  the response is not ok (by its own \<^verbatim>\<open>throw\<close>, or before it when reading the text
  of the body for the log fails), when \<^verbatim>\<open>response.json()\<close> rejects, and when the
  log line reads \<^verbatim>\<open>data.length\<close> of \<^verbatim>\<open>null\<close>. The lines written to the console
  are not modelled.
\<close>

definition GET_try :: "fetch_result \<Rightarrow> json option" where
  "GET_try r =
     (case r of
        FetchRejected \<Rightarrow> None
      | FetchResponse st b \<Rightarrow>
          if \<not> response_ok st then None
          else
            (case b of
               None \<Rightarrow> None
             | Some data \<Rightarrow> (if data = JNull then None else Some data)))"

text \<open>
  The handler. The upstream service is the environment: \<open>upstream k\<close> is what the
  \<open>k\<close>-th request to it results in, and \<open>calls\<close> counts the requests issued so far.
  The handler issues one request, and answers from the \<^verbatim>\<open>try\<close> block or from the
  \<^verbatim>\<open>catch\<close> block; \<^verbatim>\<open>NextResponse.json(data)\<close> has status 200.
\<close>

definition GET :: "(nat \<Rightarrow> fetch_result) \<Rightarrow> nat \<Rightarrow> http_response \<times> nat" where
  "GET upstream calls =
     (let r = upstream calls; calls' = calls + 1 in
      case GET_try r of
        Some data \<Rightarrow> (\<lparr>status = 200, body = data\<rparr>, calls')
      | None \<Rightarrow>
          (\<lparr>status = 500, body = JObj [(''error'', JStr ''Failed to fetch predictions'')]\<rparr>,
           calls'))"

text \<open>
  The failures of the upstream request that the specification names: a network error,
  a status that is no success, a body that is not JSON.
\<close>

fun upstream_failure :: "fetch_result \<Rightarrow> bool" where
  "upstream_failure FetchRejected = True"
| "upstream_failure (FetchResponse st b) =
     (if response_ok st then b = None else True)"

section \<open>The view: \<^verbatim>\<open>PredictionList\<close>\<close>

text \<open>
  The four \<^verbatim>\<open>useState\<close> cells of the component. \<open>lastUpdated\<close> is the time value
  of the stored \<^verbatim>\<open>Date\<close>. \<open>predictions\<close> holds whatever \<^verbatim>\<open>setPredictions(data)\<close>
  stored: the parsed body, which the code does not check to be an array.
\<close>

record view_state =
  predictions :: json
  isLoading :: bool
  error :: "string option"
  lastUpdated :: "int option"

text \<open>The state at mount: the initial values of the four cells.\<close>

definition initial_state :: view_state where
  "initial_state =
     \<lparr>predictions = JArr [], isLoading = True, error = None, lastUpdated = None\<rparr>"

text \<open>
  \<^verbatim>\<open>data.error\<close> as a condition: reading a property of \<^verbatim>\<open>null\<close> throws
  (\<^term>\<open>None\<close>); on an object it is the truth value of the member, and on every
  other value the property is \<^verbatim>\<open>undefined\<close>, which is false.
\<close>

fun data_error :: "json \<Rightarrow> bool option" where
  "data_error JNull = None"
| "data_error (JObj kvs) =
     Some (case get_member kvs ''error'' of None \<Rightarrow> False | Some e \<Rightarrow> truthy e)"
| "data_error (JBool b) = Some False"
| "data_error (JNum n) = Some False"
| "data_error (JStr s) = Some False"
| "data_error (JArr xs) = Some False"

text \<open>
  The \<^verbatim>\<open>try\<close> block of \<^verbatim>\<open>fetchPredictions\<close> up to the two setters:
  \<^term>\<open>None\<close> when it throws, \<^term>\<open>Some data\<close> when it reaches
  \<^verbatim>\<open>setPredictions(data)\<close>.
\<close>

definition fetchPredictions_try :: "fetch_result \<Rightarrow> json option" where
  "fetchPredictions_try r =
     (case r of
        FetchRejected \<Rightarrow> None
      | FetchResponse st b \<Rightarrow>
          if \<not> response_ok st then None
          else
            (case b of
               None \<Rightarrow> None
             | Some data \<Rightarrow>
                 (case data_error data of
                    None \<Rightarrow> None
                  | Some e \<Rightarrow> (if e then None else Some data))))"

text \<open>
  \<^verbatim>\<open>fetchPredictions\<close> in its two parts: what it does before it waits for the
  response, \<^verbatim>\<open>setIsLoading(true)\<close>, and what it does once the request has settled
  with result \<open>r\<close> when the clock reads \<open>now\<close>: the rest of the \<^verbatim>\<open>try\<close> block or
  the \<^verbatim>\<open>catch\<close> block, and then the \<^verbatim>\<open>finally\<close> block. The function only calls
  setters, so each part is an update of the current state. The loading flag is set
  until the \<^verbatim>\<open>finally\<close> block, so every rendering in between is the loading
  view. One invocation at a time is considered.
\<close>

definition begin_fetch :: "view_state \<Rightarrow> view_state" where
  "begin_fetch s = s\<lparr>isLoading := True\<rparr>"

definition settle_fetch :: "fetch_result \<Rightarrow> int \<Rightarrow> view_state \<Rightarrow> view_state" where
  "settle_fetch r now s =
     (let s' =
        (case fetchPredictions_try r of
           Some data \<Rightarrow> s\<lparr>predictions := data, lastUpdated := Some now\<rparr>
         | None \<Rightarrow> s\<lparr>error := Some ''Failed to load predictions. Please try again later.''\<rparr>)
      in s'\<lparr>isLoading := False\<rparr>)"

definition fetchPredictions :: "fetch_result \<Rightarrow> int \<Rightarrow> view_state \<Rightarrow> view_state" where
  "fetchPredictions r now s = settle_fetch r now (begin_fetch s)"

text \<open>
  What the component returns: the branch of its body that is taken. The last branch
  carries the stored time and the list it maps to cards. \<^term>\<open>RenderThrows\<close> is
  an exception during rendering: \<^verbatim>\<open>predictions.length\<close> of \<^verbatim>\<open>null\<close>,
  \<^verbatim>\<open>predictions.map\<close> of a value that is no array, or an element of the list from
  which the card cannot be built.
\<close>

datatype view =
    LoadingView
  | ErrorView string
  | NoPredictionsView
  | PredictionCards "int option" "json list"
  | RenderThrows

text \<open>\<^verbatim>\<open>predictions.length === 0\<close>; \<^term>\<open>None\<close> when reading the property throws.\<close>

fun length_is_zero :: "json \<Rightarrow> bool option" where
  "length_is_zero JNull = None"
| "length_is_zero (JArr xs) = Some (xs = [])"
| "length_is_zero (JStr s) = Some (s = [])"
| "length_is_zero (JObj kvs) = Some (get_member kvs ''length'' = Some (JNum 0))"
| "length_is_zero (JBool b) = Some False"
| "length_is_zero (JNum n) = Some False"

subsection \<open>Building a card from an element of the list\<close>

text \<open>
  The callback of \<^verbatim>\<open>predictions.map\<close> reads eleven members of \<^verbatim>\<open>match\<close> and
  hands them to the helpers and to the markup. Its expressions throw in four ways.

  Coercion to a primitive value (\<^verbatim>\<open>new Date(v)\<close>, \<^verbatim>\<open>Math.max\<close>, \<^verbatim>\<open>v * 1\<close>,
  \<^verbatim>\<open>v * 100\<close>, and the conversion of \<^verbatim>\<open>key\<close> to a string) throws for an object
  that has a member \<^verbatim>\<open>toString\<close>: the member hides the method of the prototype and
  is no function. An array is joined, which coerces its elements, except \<^verbatim>\<open>null\<close>, in
  the same way. Every other value coerces.
\<close>

fun to_primitive_throws :: "json \<Rightarrow> bool" where
  "to_primitive_throws (JObj kvs) = (get_member kvs ''toString'' \<noteq> None)"
| "to_primitive_throws (JArr xs) = list_ex to_primitive_throws xs"
| "to_primitive_throws JNull = False"
| "to_primitive_throws (JBool b) = False"
| "to_primitive_throws (JNum n) = False"
| "to_primitive_throws (JStr s) = False"

text \<open>
  A value in braces between tags (\<^verbatim>\<open><span>{match.homePrediction}</span>\<close>) is a child
  of the element: a string, a number, a boolean or \<^verbatim>\<open>null\<close> is accepted, an array
  is accepted when its elements are, and an object is refused with an exception.
\<close>

fun react_child_ok :: "json \<Rightarrow> bool" where
  "react_child_ok (JObj kvs) = False"
| "react_child_ok (JArr xs) = list_all react_child_ok xs"
| "react_child_ok JNull = True"
| "react_child_ok (JBool b) = True"
| "react_child_ok (JNum n) = True"
| "react_child_ok (JStr s) = True"

text \<open>
  The four conditions on a member as read (\<^term>\<open>None\<close> is \<^verbatim>\<open>undefined\<close>):
  it coerces to a primitive value; it is accepted as a child; it is a string, which
  \<^verbatim>\<open>teamName.replace(...)\<close> in \<^verbatim>\<open>getTeamLogo\<close> needs, every other value having no
  function \<^verbatim>\<open>replace\<close>; it is a number, which \<^verbatim>\<open>.toFixed(1)\<close> needs.
\<close>

fun coerces :: "json option \<Rightarrow> bool" where
  "coerces None = True"
| "coerces (Some v) = (\<not> to_primitive_throws v)"

fun child_ok :: "json option \<Rightarrow> bool" where
  "child_ok None = True"
| "child_ok (Some v) = react_child_ok v"

fun is_string :: "json option \<Rightarrow> bool" where
  "is_string (Some (JStr s)) = True"
| "is_string _ = False"

fun is_number :: "json option \<Rightarrow> bool" where
  "is_number (Some (JNum n)) = True"
| "is_number _ = False"

text \<open>
  Whether the callback builds the card of \<^verbatim>\<open>match\<close> without an exception, member
  by member in the order of the markup. An element that is no object has none of the
  members (and reading \<^verbatim>\<open>match.matchId\<close> of \<^verbatim>\<open>null\<close> throws), so the first call
  of \<^verbatim>\<open>getTeamLogo\<close> throws. The components of the libraries (\<^verbatim>\<open>Image\<close>,
  \<^verbatim>\<open>Progress\<close>, \<^verbatim>\<open>Card\<close>, the icons) are taken to render what they are given. The
  texts shown on the card are those of the helpers above and are not part of the view.
\<close>

fun card_renders :: "json \<Rightarrow> bool" where
  "card_renders (JObj kvs) =
     (coerces (get_member kvs ''matchId'')
      \<and> is_string (get_member kvs ''homeTeamName'')
      \<and> is_string (get_member kvs ''awayTeamName'')
      \<and> coerces (get_member kvs ''dateTime'')
      \<and> coerces (get_member kvs ''probHomeWin'')
      \<and> coerces (get_member kvs ''probDraw'')
      \<and> coerces (get_member kvs ''probAwayWin'')
      \<and> child_ok (get_member kvs ''homePrediction'')
      \<and> child_ok (get_member kvs ''awayPrediction'')
      \<and> is_number (get_member kvs ''expectedHomeGoals'')
      \<and> is_number (get_member kvs ''expectedAwayGoals''))"
| "card_renders JNull = False"
| "card_renders (JBool b) = False"
| "card_renders (JNum n) = False"
| "card_renders (JStr s) = False"
| "card_renders (JArr xs) = False"

text \<open>
  The last two branches: the list is empty, or it is mapped to cards, which throws
  when the value is no array or when the card of one of its elements cannot be built.
\<close>

definition render_list :: "view_state \<Rightarrow> view" where
  "render_list s =
     (case length_is_zero (predictions s) of
        None \<Rightarrow> RenderThrows
      | Some z \<Rightarrow>
          if z then NoPredictionsView
          else
            (case predictions s of
               JArr xs \<Rightarrow>
                 if list_all card_renders xs then PredictionCards (lastUpdated s) xs
                 else RenderThrows
             | _ \<Rightarrow> RenderThrows))"

text \<open>
  The body of the component after its hooks: \<^verbatim>\<open>if (isLoading)\<close>, \<^verbatim>\<open>if (error)\<close>
  (a string is true when it is not empty), \<^verbatim>\<open>if (predictions.length === 0)\<close>, and the
  list.
\<close>

definition render :: "view_state \<Rightarrow> view" where
  "render s =
     (if isLoading s then LoadingView
      else
        (case error s of
           Some msg \<Rightarrow> if msg = [] then render_list s else ErrorView msg
         | None \<Rightarrow> render_list s))"

text \<open>
  The three states of the specification, read off the rendered view: loading, error,
  and loaded (a list, possibly empty).
\<close>

fun is_loading :: "view \<Rightarrow> bool" where
  "is_loading LoadingView = True"
| "is_loading _ = False"

fun is_error :: "view \<Rightarrow> bool" where
  "is_error (ErrorView msg) = True"
| "is_error _ = False"

fun is_loaded :: "view \<Rightarrow> bool" where
  "is_loaded NoPredictionsView = True"
| "is_loaded (PredictionCards t xs) = True"
| "is_loaded _ = False"

text \<open>
  The failing invocations of \<^verbatim>\<open>fetchPredictions\<close>, by kind. An exception is
  thrown when the request is rejected, when the body is no JSON, and when the body is
  \<^verbatim>\<open>null\<close> (reading \<^verbatim>\<open>data.error\<close> throws); the response is no success; the
  body is an object whose \<^verbatim>\<open>error\<close> member is true in a condition.
\<close>

fun error_payload :: "json \<Rightarrow> bool" where
  "error_payload (JObj kvs) =
     (case get_member kvs ''error'' of None \<Rightarrow> False | Some e \<Rightarrow> truthy e)"
| "error_payload _ = False"

fun exception_thrown :: "fetch_result \<Rightarrow> bool" where
  "exception_thrown FetchRejected = True"
| "exception_thrown (FetchResponse st None) = True"
| "exception_thrown (FetchResponse st (Some data)) = (data = JNull)"

fun non_success :: "fetch_result \<Rightarrow> bool" where
  "non_success FetchRejected = False"
| "non_success (FetchResponse st b) = (if response_ok st then False else True)"

fun error_in_body :: "fetch_result \<Rightarrow> bool" where
  "error_in_body (FetchResponse st (Some data)) = error_payload data"
| "error_in_body _ = False"

definition failing_fetch :: "fetch_result \<Rightarrow> bool" where
  "failing_fetch r = (non_success r \<or> error_in_body r \<or> exception_thrown r)"

text \<open>A prediction as the upstream service sends it, for the examples.\<close>

definition sample_prediction :: json where
  "sample_prediction =
     JObj [(''matchId'', JStr ''m1''),
           (''homeTeamName'', JStr ''Ajax''), (''awayTeamName'', JStr ''PSV''),
           (''dateTime'', JStr ''2024-05-01T18:00:00Z''),
           (''homePrediction'', JStr ''2''), (''awayPrediction'', JStr ''1''),
           (''probHomeWin'', JNum (1 / 2)), (''probDraw'', JNum (3 / 10)),
           (''probAwayWin'', JNum (1 / 5)),
           (''expectedHomeGoals'', JNum (9 / 5)), (''expectedAwayGoals'', JNum (9 / 10))]"

text \<open>
  The state in which a first fetch after mount has failed: the proxy has answered with
  status 500 and its error payload.
\<close>

definition proxy_error_result :: fetch_result where
  "proxy_error_result =
     FetchResponse 500 (Some (JObj [(''error'', JStr ''Failed to fetch predictions'')]))"

definition failed_state :: view_state where
  "failed_state = fetchPredictions proxy_error_result 1000 initial_state"

section \<open>Properties of the helpers\<close>

subsection \<open>Percentages\<close>

text \<open>
  On the unit interval \<^const>\<open>formatPercentage\<close> has two values only: the factor in its
  body is \<open>1\<close>, so the fraction itself is rounded to an integer.
\<close>

lemma formatPercentage_unit_fraction:
  assumes "0 \<le> v" and "v \<le> 1"
  shows "formatPercentage v = (if v < 1 / 2 then ''0%'' else ''1%'')"
proof (cases "v < 1 / 2")
  case True
  with assms have "\<lfloor>v + 1 / 2\<rfloor> = 0" by (simp add: floor_eq_iff)
  moreover have "string_of_nat 0 = ''0''" by code_simp
  ultimately show ?thesis using True assms by (simp add: formatPercentage_def toFixed0_def)
next
  case False
  with assms have "\<lfloor>v + 1 / 2\<rfloor> = 1" by (simp add: floor_eq_iff)
  moreover have "string_of_nat 1 = ''1''" by code_simp
  ultimately show ?thesis using False assms by (simp add: formatPercentage_def toFixed0_def)
qed

text \<open>
  Claim C1: a probability stored as a unit fraction is rendered as an integer percent,
  scaled by 100, so that \<^verbatim>\<open>formatPercentage(0.42)\<close> is \<^verbatim>\<open>42%\<close> and
  \<^verbatim>\<open>formatPercentage(1)\<close> is \<^verbatim>\<open>100%\<close>. The code does not scale: at \<open>1\<close> it
  returns \<^verbatim>\<open>1%\<close> and at \<open>0.42\<close> it returns \<^verbatim>\<open>0%\<close>, while the progress bar of the
  same card is given the value times 100, which would print as the claim says.
\<close>

theorem formatPercentage_not_scaled:
  "formatPercentage 1 = ''1%''
   \<and> formatPercentage (42 / 100) = ''0%''
   \<and> toFixed0 (progressValue 1) @ ''%'' = ''100%''
   \<and> toFixed0 (progressValue (42 / 100)) @ ''%'' = ''42%''"
  by code_simp

subsection \<open>Likely outcome\<close>

text \<open>
  Claim C3: \<^const>\<open>determineOutcome\<close> selects the outcome whose probability is the
  maximum of the three, with precedence home, away, draw among equal maxima: the home
  message when the home probability is a maximum; else the away message when the away
  probability is a maximum; else, the draw probability being the only maximum, the draw
  message.
\<close>

theorem determineOutcome_argmax:
  "(probDraw m \<le> probHomeWin m \<and> probAwayWin m \<le> probHomeWin m
      \<longrightarrow> determineOutcome m = homeTeamName m @ '' likely to win'')
 \<and> (probHomeWin m < probAwayWin m \<and> probDraw m \<le> probAwayWin m
      \<longrightarrow> determineOutcome m = awayTeamName m @ '' likely to win'')
 \<and> (probHomeWin m < probDraw m \<and> probAwayWin m < probDraw m
      \<longrightarrow> determineOutcome m = ''Draw likely'')"
  by (auto simp: determineOutcome_def Math_max3_def Let_def max_def)

theorem determineOutcome_argmax_witness:
  "determineOutcome \<lparr>matchId = ''m1'', homeTeamName = ''Ajax'', awayTeamName = ''PSV'',
       dateTime = ''2024-05-01T18:00:00Z'', homePrediction = ''2'', awayPrediction = ''1'',
       probHomeWin = 2 / 5, probDraw = 1 / 5, probAwayWin = 2 / 5,
       expectedHomeGoals = 2, expectedAwayGoals = 1\<rparr> = ''Ajax likely to win''
   \<and> determineOutcome \<lparr>matchId = ''m2'', homeTeamName = ''Ajax'', awayTeamName = ''PSV'',
       dateTime = ''2024-05-01T18:00:00Z'', homePrediction = ''1'', awayPrediction = ''2'',
       probHomeWin = 1 / 5, probDraw = 2 / 5, probAwayWin = 2 / 5,
       expectedHomeGoals = 1, expectedAwayGoals = 2\<rparr> = ''PSV likely to win''
   \<and> determineOutcome \<lparr>matchId = ''m3'', homeTeamName = ''Ajax'', awayTeamName = ''PSV'',
       dateTime = ''2024-05-01T18:00:00Z'', homePrediction = ''1'', awayPrediction = ''1'',
       probHomeWin = 3 / 10, probDraw = 2 / 5, probAwayWin = 3 / 10,
       expectedHomeGoals = 1, expectedAwayGoals = 1\<rparr> = ''Draw likely''"
  using
    determineOutcome_argmax[of "\<lparr>matchId = ''m1'', homeTeamName = ''Ajax'', awayTeamName = ''PSV'',
       dateTime = ''2024-05-01T18:00:00Z'', homePrediction = ''2'', awayPrediction = ''1'',
       probHomeWin = 2 / 5, probDraw = 1 / 5, probAwayWin = 2 / 5,
       expectedHomeGoals = 2, expectedAwayGoals = 1\<rparr>"]
    determineOutcome_argmax[of "\<lparr>matchId = ''m2'', homeTeamName = ''Ajax'', awayTeamName = ''PSV'',
       dateTime = ''2024-05-01T18:00:00Z'', homePrediction = ''1'', awayPrediction = ''2'',
       probHomeWin = 1 / 5, probDraw = 2 / 5, probAwayWin = 2 / 5,
       expectedHomeGoals = 1, expectedAwayGoals = 2\<rparr>"]
    determineOutcome_argmax[of "\<lparr>matchId = ''m3'', homeTeamName = ''Ajax'', awayTeamName = ''PSV'',
       dateTime = ''2024-05-01T18:00:00Z'', homePrediction = ''1'', awayPrediction = ''1'',
       probHomeWin = 3 / 10, probDraw = 2 / 5, probAwayWin = 3 / 10,
       expectedHomeGoals = 1, expectedAwayGoals = 1\<rparr>"]
  by simp

subsection \<open>Time remaining\<close>

lemma ended_last: "xs @ ''m'' \<noteq> ''Match ended''"
proof
  assume "xs @ ''m'' = ''Match ended''"
  then have "last (xs @ ''m'') = last ''Match ended''" by simp
  then show False by simp
qed

text \<open>The minutes of the source are the whole minutes of the difference, modulo 60.\<close>

lemma minutes_eq: "((d::int) mod 3600000) div 60000 = (d div 60000) mod 60"
proof -
  have "d mod (60000 * 60) = 60000 * (d div 60000 mod 60) + d mod 60000"
    by (rule zmod_zmult2_eq) simp
  then have "(d mod 3600000) div 60000 = (60000 * (d div 60000 mod 60) + d mod 60000) div 60000"
    by simp
  also have "\<dots> = d div 60000 mod 60"
    by simp
  finally show ?thesis .
qed

lemma ctr_nonneg:
  assumes "0 \<le> k - now"
  shows "calculateTimeRemaining now (Some k) =
          (let h = nat ((k - now) div 3600000); m = nat (((k - now) div 60000) mod 60)
           in if h = 0 then string_of_nat m @ ''m''
              else string_of_nat h @ ''h '' @ string_of_nat m @ ''m'')"
proof -
  define d where "d = k - now"
  define h where "h = d div 3600000"
  define m where "m = (d div 60000) mod 60"
  have d0: "\<not> d < 0" using assms by (simp add: d_def)
  have h0: "0 \<le> h" unfolding h_def using d0 by (simp add: pos_imp_zdiv_nonneg_iff)
  have m0: "0 \<le> m" unfolding m_def by simp
  have hs: "string_of_int h = string_of_nat (nat h)" using h0 by (simp add: string_of_int_def)
  have ms: "string_of_int m = string_of_nat (nat m)" using m0 by (simp add: string_of_int_def)
  have hz: "(nat h = 0) = (\<not> 0 < h)" using h0 by simp
  have "calculateTimeRemaining now (Some k) =
      (if 0 < h then string_of_int h @ ''h '' @ string_of_int m @ ''m''
       else string_of_int m @ ''m'')"
    using d0 by (simp add: calculateTimeRemaining_def Let_def minutes_eq
        flip: d_def h_def m_def)
  also have "\<dots> = (if nat h = 0 then string_of_nat (nat m) @ ''m''
       else string_of_nat (nat h) @ ''h '' @ string_of_nat (nat m) @ ''m'')"
    unfolding hs ms hz by simp
  finally show ?thesis by (simp add: Let_def d_def h_def m_def)
qed

lemma ctr_ended: "(calculateTimeRemaining now (Some k) = ''Match ended'') = (k - now < 0)"
proof (cases "k - now < 0")
  case True then show ?thesis by (simp add: calculateTimeRemaining_def)
next
  case False
  then have nn: "0 \<le> k - now" by simp
  define h where "h = nat ((k - now) div 3600000)"
  define m where "m = nat (((k - now) div 60000) mod 60)"
  have e: "calculateTimeRemaining now (Some k) =
      (if h = 0 then string_of_nat m @ ''m''
       else (string_of_nat h @ ''h '' @ string_of_nat m) @ ''m'')"
    unfolding h_def m_def using ctr_nonneg[OF nn] by (simp only: Let_def append_assoc)
  obtain xs where xs: "calculateTimeRemaining now (Some k) = xs @ ''m''"
  proof (cases "h = 0")
    case True
    with e have "calculateTimeRemaining now (Some k) = string_of_nat m @ ''m''" by simp
    then show ?thesis by (rule that)
  next
    case False
    with e have "calculateTimeRemaining now (Some k) =
        (string_of_nat h @ ''h '' @ string_of_nat m) @ ''m''"
      by simp
    then show ?thesis by (rule that)
  qed
  have "calculateTimeRemaining now (Some k) \<noteq> ''Match ended''"
    unfolding xs by (rule ended_last)
  with False show ?thesis by simp
qed

lemma ctr_90: "calculateTimeRemaining now (Some (now + 90 * 60000)) = ''1h 30m''"
proof -
  have d: "now + 90 * 60000 - now = 5400000" by simp
  have s1: "string_of_int 1 = ''1''" by code_simp
  have s2: "string_of_int 30 = ''30''" by code_simp
  show ?thesis
    unfolding calculateTimeRemaining_def option.case Let_def d using s1 s2 by simp
qed

lemma ctr_45: "calculateTimeRemaining now (Some (now + 45 * 60000)) = ''45m''"
proof -
  have d: "now + 45 * 60000 - now = 2700000" by simp
  have s: "string_of_int 45 = ''45''" by code_simp
  show ?thesis
    unfolding calculateTimeRemaining_def option.case Let_def d using s by simp
qed

text \<open>A string that is no date is not reported as ended: the text is \<^verbatim>\<open>NaNm\<close>.\<close>

lemma calculateTimeRemaining_invalid: "calculateTimeRemaining now None = ''NaNm''"
  by (simp add: calculateTimeRemaining_def)

text \<open>
  Claim C4: for every kickoff time, \<^const>\<open>calculateTimeRemaining\<close> returns
  \<^verbatim>\<open>Match ended\<close> exactly when kickoff minus now is negative; otherwise it prints the
  whole hours and the minutes of the difference, and leaves the hours out when there are
  none. A kickoff 90 minutes ahead gives \<^verbatim>\<open>1h 30m\<close>, one 45 minutes ahead gives
  \<^verbatim>\<open>45m\<close>.
\<close>

theorem calculateTimeRemaining_spec:
  fixes now k :: int
  shows "(calculateTimeRemaining now (Some k) = ''Match ended'' \<longleftrightarrow> k - now < 0)
     \<and> (0 \<le> k - now \<longrightarrow> calculateTimeRemaining now (Some k) =
          (let h = nat ((k - now) div 3600000); m = nat (((k - now) div 60000) mod 60)
           in if h = 0 then string_of_nat m @ ''m''
              else string_of_nat h @ ''h '' @ string_of_nat m @ ''m''))
     \<and> calculateTimeRemaining now (Some (now + 90 * 60000)) = ''1h 30m''
     \<and> calculateTimeRemaining now (Some (now + 45 * 60000)) = ''45m''"
proof (intro conjI impI)
  show "(calculateTimeRemaining now (Some k) = ''Match ended'') = (k - now < 0)"
    by (rule ctr_ended)
  show "calculateTimeRemaining now (Some (now + 90 * 60000)) = ''1h 30m''"
    by (rule ctr_90)
  show "calculateTimeRemaining now (Some (now + 45 * 60000)) = ''45m''"
    by (rule ctr_45)
next
  assume "0 \<le> k - now"
  then show "calculateTimeRemaining now (Some k) =
          (let h = nat ((k - now) div 3600000); m = nat (((k - now) div 60000) mod 60)
           in if h = 0 then string_of_nat m @ ''m''
              else string_of_nat h @ ''h '' @ string_of_nat m @ ''m'')"
    by (rule ctr_nonneg)
qed

theorem calculateTimeRemaining_spec_witness:
  "(0::int) \<le> 1700000005400000 - 1700000000000000
   \<and> calculateTimeRemaining 1700000000000000 (Some 1700000005400000) = ''1h 30m''
   \<and> calculateTimeRemaining 1700000000000000 (Some 1700000000000000) = ''0m''
   \<and> (calculateTimeRemaining 1700000000000000 (Some 1699999999999999) = ''Match ended'')"
proof -
  have s: "string_of_nat 1 = ''1''" "string_of_nat 30 = ''30''" "string_of_nat 0 = ''0''"
    by code_simp+
  show ?thesis
    using s calculateTimeRemaining_spec[of 1700000000000000 1700000005400000]
      calculateTimeRemaining_spec[of 1700000000000000 1700000000000000]
      calculateTimeRemaining_spec[of 1700000000000000 1699999999999999]
    by (simp add: Let_def)
qed

subsection \<open>Logo address\<close>

lemma lower_char_hyphen: "lower_char CHR ''-'' = CHR ''-''"
  by (simp add: lower_char_def is_upper_def)

lemma is_space_lower: "is_space (lower_char c) = is_space c"
proof (cases "is_upper c")
  case False then show ?thesis by (simp add: lower_char_def)
next
  case True
  then have a: "\<not> is_space c" by (auto simp: is_space_def is_upper_def Let_def)
  have "of_char c + 32 < (256::nat)" using True by (auto simp: is_upper_def Let_def)
  then have "of_char (char_of (of_char c + 32 :: nat)) = (of_char c + 32 :: nat)"
    by (simp add: of_char_of)
  then have "\<not> is_space (lower_char c)" using True
    by (auto simp: is_space_def is_upper_def Let_def lower_char_def)
  with a show ?thesis by simp
qed

lemma dropWhile_space_lower:
  "dropWhile is_space (map lower_char cs) = map lower_char (dropWhile is_space cs)"
  by (induction cs) (auto simp: is_space_lower)

text \<open>Lower case and the replacement of white space commute.\<close>

lemma replace_ws_lower: "replace_ws (toLowerCase s) = toLowerCase (replace_ws s)"
  unfolding toLowerCase_def
  by (induction s rule: replace_ws.induct)
     (auto simp: is_space_lower dropWhile_space_lower lower_char_hyphen)

text \<open>No white space is left in the formatted name.\<close>

lemma replace_ws_no_space: "c \<in> set (replace_ws s) \<Longrightarrow> \<not> is_space c"
  by (induction s rule: replace_ws.induct) (auto simp: is_space_def split: if_splits)

text \<open>
  Claim C9: for every team name, \<^const>\<open>getTeamLogo\<close> returns the fixed address of the
  icon service with the name, put in lower case and with white space replaced by
  hyphens, in its place. The function is total and checks nothing about the result.
\<close>

theorem getTeamLogo_template:
  "getTeamLogo teamName =
     ''https://img.icons8.com/color/96/'' @ spec_formattedName teamName @ ''.png''"
  by (simp add: getTeamLogo_def spec_formattedName_def replace_ws_lower)

theorem getTeamLogo_template_witness:
  "getTeamLogo ''Real  Madrid CF'' = ''https://img.icons8.com/color/96/real-madrid-cf.png''"
proof -
  have "spec_formattedName ''Real  Madrid CF'' = ''real-madrid-cf''" by code_simp
  then show ?thesis using getTeamLogo_template[of "''Real  Madrid CF''"] by simp
qed

section \<open>Properties of the proxy route\<close>

lemma GET_try_failure: "upstream_failure r \<Longrightarrow> GET_try r = None"
  by (cases r) (auto simp: GET_try_def split: if_splits)

text \<open>
  Claim C5: for every failure of the upstream request (a status that is no success, a
  network error, a malformed body) the handler answers with status 500 and a payload
  with an \<^verbatim>\<open>error\<close> member holding a generic message. The handler has issued one
  upstream request, so there is no retry, and the payload holds nothing but that member,
  so there is no partial result.
\<close>

theorem GET_failure_is_500:
  assumes "upstream_failure (upstream calls)"
  shows "GET upstream calls =
     (\<lparr>status = 500, body = JObj [(''error'', JStr ''Failed to fetch predictions'')]\<rparr>,
      calls + 1)"
  using GET_try_failure[OF assms] by (simp add: GET_def)

theorem GET_failure_is_500_witness:
  "upstream_failure (FetchResponse 503 (Some (JStr ''Service Unavailable'')))
   \<and> upstream_failure FetchRejected
   \<and> upstream_failure (FetchResponse 200 None)
   \<and> GET (\<lambda>k. FetchResponse 503 (Some (JStr ''Service Unavailable''))) 0 =
     (\<lparr>status = 500, body = JObj [(''error'', JStr ''Failed to fetch predictions'')]\<rparr>, 1)
   \<and> GET (\<lambda>k. FetchRejected) 0 =
     (\<lparr>status = 500, body = JObj [(''error'', JStr ''Failed to fetch predictions'')]\<rparr>, 1)
   \<and> GET (\<lambda>k. FetchResponse 200 None) 0 =
     (\<lparr>status = 500, body = JObj [(''error'', JStr ''Failed to fetch predictions'')]\<rparr>, 1)"
proof -
  have a: "upstream_failure (FetchResponse 503 (Some (JStr ''Service Unavailable'')))"
    by (simp add: response_ok_def)
  have b: "upstream_failure FetchRejected" by simp
  have c: "upstream_failure (FetchResponse 200 None)" by simp
  show ?thesis
    using a b c
      GET_failure_is_500[of "\<lambda>k. FetchResponse 503 (Some (JStr ''Service Unavailable''))" 0]
      GET_failure_is_500[of "\<lambda>k. FetchRejected" 0]
      GET_failure_is_500[of "\<lambda>k. FetchResponse 200 None" 0]
    by simp
qed

text \<open>
  Claim C6: when the upstream response is a success and its body parses as a JSON
  array, the handler returns that array unchanged, with status 200.
\<close>

theorem GET_success_verbatim:
  assumes "upstream calls = FetchResponse st (Some (JArr xs))" and "response_ok st"
  shows "GET upstream calls = (\<lparr>status = 200, body = JArr xs\<rparr>, calls + 1)"
  using assms by (simp add: GET_def GET_try_def)

theorem GET_success_verbatim_witness:
  "response_ok 200 \<and>
   GET (\<lambda>k. FetchResponse 200 (Some (JArr [sample_prediction]))) 0 =
     (\<lparr>status = 200, body = JArr [sample_prediction]\<rparr>, 1)"
proof -
  have ok: "response_ok 200" by (simp add: response_ok_def)
  show ?thesis
    using ok GET_success_verbatim[of "\<lambda>k. FetchResponse 200 (Some (JArr [sample_prediction]))" 0 200 "[sample_prediction]"]
    by simp
qed

text \<open>
  What the view receives when the handler has met an upstream failure is
  \<^const>\<open>proxy_error_result\<close>.
\<close>

lemma proxy_error_result_from_GET:
  assumes "upstream_failure (upstream calls)"
  shows "FetchResponse (status (fst (GET upstream calls))) (Some (body (fst (GET upstream calls))))
         = proxy_error_result"
  using GET_try_failure[OF assms] by (simp add: GET_def proxy_error_result_def)

section \<open>Properties of the view\<close>

lemma data_error_payload:
  "data_error d = (if d = JNull then None else Some (error_payload d))"
  by (cases d) simp_all

text \<open>The kinds of failure are the results on which the \<^verbatim>\<open>try\<close> block throws.\<close>

lemma failing_fetch_iff: "failing_fetch r \<longleftrightarrow> fetchPredictions_try r = None"
proof (cases r)
  case FetchRejected
  then show ?thesis by (simp add: failing_fetch_def fetchPredictions_try_def)
next
  case (FetchResponse st b)
  show ?thesis
  proof (cases b)
    case None
    with FetchResponse show ?thesis by (simp add: failing_fetch_def fetchPredictions_try_def)
  next
    case (Some d)
    with FetchResponse show ?thesis
      by (simp add: failing_fetch_def fetchPredictions_try_def data_error_payload)
  qed
qed

text \<open>
  Claim C10: every failing invocation of \<^const>\<open>fetchPredictions\<close> (a response that is
  no success, an error payload in the body, a thrown exception) leaves the predictions
  and the time of the last update as they were; the state after it is the state before
  it with the error message set and the loading flag cleared.
\<close>

theorem failing_fetch_keeps_data:
  assumes "failing_fetch r"
  shows "fetchPredictions r now s =
           s\<lparr>error := Some ''Failed to load predictions. Please try again later.'',
             isLoading := False\<rparr>
       \<and> predictions (fetchPredictions r now s) = predictions s
       \<and> lastUpdated (fetchPredictions r now s) = lastUpdated s
       \<and> predictions (begin_fetch s) = predictions s
       \<and> lastUpdated (begin_fetch s) = lastUpdated s"
proof -
  from assms have "fetchPredictions_try r = None" by (simp add: failing_fetch_iff)
  then show ?thesis by (simp add: fetchPredictions_def settle_fetch_def begin_fetch_def)
qed

theorem failing_fetch_keeps_data_witness:
  "failing_fetch proxy_error_result
   \<and> fetchPredictions proxy_error_result 2000
        \<lparr>predictions = JArr [sample_prediction], isLoading = False,
         error = None, lastUpdated = Some 1000\<rparr>
      = \<lparr>predictions = JArr [sample_prediction], isLoading = False,
         error = Some ''Failed to load predictions. Please try again later.'',
         lastUpdated = Some 1000\<rparr>"
proof -
  have f: "failing_fetch proxy_error_result"
    by (simp add: failing_fetch_def proxy_error_result_def response_ok_def)
  show ?thesis
    using f failing_fetch_keeps_data[OF f, of 2000
        "\<lparr>predictions = JArr [sample_prediction], isLoading = False,
         error = None, lastUpdated = Some 1000\<rparr>"]
    by simp
qed

subsection \<open>The error message is never cleared\<close>

text \<open>
  \<^verbatim>\<open>setError\<close> is called in the \<^verbatim>\<open>catch\<close> block only: no path of
  \<^const>\<open>fetchPredictions\<close> sets the message back to \<^verbatim>\<open>null\<close>.
\<close>

lemma error_sticky:
  "error (fetchPredictions r now s) =
     (if failing_fetch r then Some ''Failed to load predictions. Please try again later.''
      else error s)"
  by (auto simp: failing_fetch_iff fetchPredictions_def settle_fetch_def begin_fetch_def
      split: option.splits)

lemma isLoading_after: "isLoading (fetchPredictions r now s) = False"
  by (simp add: fetchPredictions_def settle_fetch_def)

lemma render_list_not_error: "is_error (render_list s) = False"
  by (cases "predictions s") (simp_all add: render_list_def)

lemma render_list_loaded:
  "predictions s = JArr xs \<Longrightarrow> list_all card_renders xs \<Longrightarrow> is_loaded (render_list s)"
  by (simp add: render_list_def)

lemma sample_prediction_renders: "card_renders sample_prediction"
  by (simp add: sample_prediction_def get_member_def)

text \<open>
  A list with an element that lacks the members of a prediction makes the component
  throw: \<^verbatim>\<open>getTeamLogo(undefined)\<close> calls \<^verbatim>\<open>replace\<close> of \<^verbatim>\<open>undefined\<close>.
\<close>

lemma render_malformed_element_throws:
  "render (fetchPredictions (FetchResponse 200 (Some (JArr [JObj []]))) 1000 initial_state)
     = RenderThrows"
  by (simp add: initial_state_def render_def render_list_def begin_fetch_def
      fetchPredictions_def settle_fetch_def fetchPredictions_try_def response_ok_def
      get_member_def)

text \<open>A fetch that the proxy answers with its error payload ends in the error view.\<close>

lemma proxy_error_shows_error:
  "render (fetchPredictions proxy_error_result now s) =
     ErrorView ''Failed to load predictions. Please try again later.''"
proof -
  have "failing_fetch proxy_error_result"
    by (simp add: failing_fetch_def proxy_error_result_def response_ok_def)
  then have "error (fetchPredictions proxy_error_result now s) =
      Some ''Failed to load predictions. Please try again later.''"
    by (simp add: error_sticky)
  then show ?thesis by (simp add: render_def isLoading_after)
qed

text \<open>Once the view shows the error, it shows it after every further fetch.\<close>

lemma error_state_absorbing:
  "is_error (render s) \<Longrightarrow> is_error (render (fetchPredictions r now s))"
  by (cases "failing_fetch r")
     (auto simp: render_def error_sticky isLoading_after render_list_not_error
       split: if_splits option.splits)

lemma begin_fetch_loading: "render (begin_fetch s) = LoadingView"
  by (simp add: render_def begin_fetch_def)

lemma failed_state_eq:
  "failed_state = \<lparr>predictions = JArr [], isLoading = False,
     error = Some ''Failed to load predictions. Please try again later.'', lastUpdated = None\<rparr>"
  by (simp add: failed_state_def proxy_error_result_def fetchPredictions_def settle_fetch_def
      begin_fetch_def fetchPredictions_try_def response_ok_def initial_state_def)

text \<open>
  Claim C2: a retry from the error state enters loading again and then reaches the error
  state or the loaded state; when the fetch of the retry succeeds, the view ends in the
  loaded state and the error is no longer shown. In the code the retry does enter
  loading, but after a successful fetch the view still shows the error: the first fetch
  after mount fails, the user retries, the proxy answers 200 with one prediction, and the
  component returns the error branch.
\<close>

theorem retry_success_still_error:
  "render failed_state = ErrorView ''Failed to load predictions. Please try again later.''
   \<and> render (begin_fetch failed_state) = LoadingView
   \<and> render (fetchPredictions (FetchResponse 200 (Some (JArr [sample_prediction])))
         2000 failed_state)
       = ErrorView ''Failed to load predictions. Please try again later.''
   \<and> is_loaded (render (fetchPredictions
         (FetchResponse 200 (Some (JArr [sample_prediction]))) 2000 failed_state))
       = False"
  by (simp add: failed_state_eq render_def begin_fetch_def fetchPredictions_def settle_fetch_def
      fetchPredictions_try_def response_ok_def get_member_def)

text \<open>
  Claim C7: when a fetch succeeds with an empty array, the view renders the state
  without predictions, not the error state. The code does so for the first fetch after
  mount; for a fetch that follows a failed one (the retry) it returns the error branch,
  since the message of the failure is still set.
\<close>

theorem empty_after_failure_shows_error:
  "render (fetchPredictions (FetchResponse 200 (Some (JArr []))) 2000 failed_state)
       = ErrorView ''Failed to load predictions. Please try again later.''
   \<and> render (fetchPredictions (FetchResponse 200 (Some (JArr []))) 1000 initial_state)
       = NoPredictionsView"
  by (simp add: failed_state_eq initial_state_def render_def render_list_def begin_fetch_def
      fetchPredictions_def settle_fetch_def fetchPredictions_try_def response_ok_def)

subsection \<open>A second successful fetch\<close>

lemma loaded_no_error:
  "is_loaded (render s) \<Longrightarrow> error s = None \<or> error s = Some []"
  by (cases "error s") (auto simp: render_def split: if_splits)

lemma render_array:
  assumes "isLoading s = False" and "error s = None \<or> error s = Some []"
    and "predictions s = JArr xs" and "list_all card_renders xs"
  shows "is_loaded (render s)"
  using assms render_list_loaded[of s xs] by (auto simp: render_def)

text \<open>
  From a state that shows the loaded view, a further fetch shows loading while it is
  pending and, when it succeeds with a list of predictions, the loaded view again, with
  the time of this fetch.
\<close>

lemma reload_from_loaded:
  assumes "response_ok st" and "is_loaded (render s)" and "list_all card_renders xs"
  shows "is_loading (render (begin_fetch s))
       \<and> is_loaded (render (fetchPredictions (FetchResponse st (Some (JArr xs))) t s))
       \<and> lastUpdated (fetchPredictions (FetchResponse st (Some (JArr xs))) t s) = Some t
       \<and> predictions (fetchPredictions (FetchResponse st (Some (JArr xs))) t s) = JArr xs"
proof -
  let ?s2 = "fetchPredictions (FetchResponse st (Some (JArr xs))) t s"
  have try2: "fetchPredictions_try (FetchResponse st (Some (JArr xs))) = Some (JArr xs)"
    using assms(1) by (simp add: fetchPredictions_try_def)
  have s2: "?s2 = s\<lparr>predictions := JArr xs, lastUpdated := Some t, isLoading := False\<rparr>"
    by (simp add: fetchPredictions_def settle_fetch_def begin_fetch_def try2)
  from assms(2) have e: "error s = None \<or> error s = Some []"
    by (rule loaded_no_error)
  have "is_loaded (render ?s2)"
    unfolding s2 using e assms(3) by (intro render_array[where xs = xs]) simp_all
  moreover have "is_loading (render (begin_fetch s))"
    by (simp add: begin_fetch_loading)
  ultimately show ?thesis by (simp add: s2)
qed

text \<open>
  Claim C8: after a successful fetch, a forced retry takes the view through loading back
  to the loaded state and replaces the time of the last update with the time of the new
  successful fetch. In the code the time is replaced, and the view passes through
  loading, but it does not reach the loaded state when a fetch has failed before: the
  first fetch after mount fails, the retry succeeds, a further retry succeeds, and after
  each of the two the component returns the error branch. When no fetch has failed
  (mount, a successful fetch, a successful retry) the view is loaded after both.
\<close>

theorem retry_after_success_still_error:
  "render (fetchPredictions (FetchResponse 200 (Some (JArr [sample_prediction]))) 2000
            failed_state)
       = ErrorView ''Failed to load predictions. Please try again later.''
   \<and> render (begin_fetch
         (fetchPredictions (FetchResponse 200 (Some (JArr [sample_prediction]))) 2000
            failed_state))
       = LoadingView
   \<and> render (fetchPredictions (FetchResponse 200 (Some (JArr [sample_prediction]))) 3000
         (fetchPredictions (FetchResponse 200 (Some (JArr [sample_prediction]))) 2000
            failed_state))
       = ErrorView ''Failed to load predictions. Please try again later.''
   \<and> lastUpdated (fetchPredictions (FetchResponse 200 (Some (JArr [sample_prediction]))) 3000
         (fetchPredictions (FetchResponse 200 (Some (JArr [sample_prediction]))) 2000
            failed_state))
       = Some 3000
   \<and> render (fetchPredictions (FetchResponse 200 (Some (JArr [sample_prediction]))) 2000
         (fetchPredictions (FetchResponse 200 (Some (JArr [sample_prediction]))) 1000
            initial_state))
       = PredictionCards (Some 2000) [sample_prediction]"
  by (simp add: failed_state_eq initial_state_def render_def render_list_def begin_fetch_def
      fetchPredictions_def settle_fetch_def fetchPredictions_try_def response_ok_def
      sample_prediction_renders)

end
